theory Spec2Isabelle
  imports Complex_Main "HOL-Library.Multiset"
begin

section \<open>JavaScript values\<close>

text \<open>
  The TypeScript sources pass values of type \<open>any\<close> that come out of \<open>JSON.parse\<close>:
  \<open>null\<close>, numbers, strings, booleans and plain objects; \<open>undefined\<close> is what reading a
  missing property gives. Numbers are IEEE doubles in the source; the model takes them as
  reals, which is exact for the comparisons the code makes (\<open>=== 0\<close>, \<open>> 1000\<close>) on
  every finite number (JSON carries no NaN and no infinity). Arrays are left out: no
  function modelled here looks inside one.
\<close>

datatype json =
    JNull
  | JUndefined
  | JNum real
  | JStr string
  | JBool bool
  | JObj "(string \<times> json) list"

text \<open>ToBoolean, as used by \<open>!x\<close>, \<open>a || b\<close> and \<open>if (x)\<close>.\<close>

fun truthy :: "json \<Rightarrow> bool" where
  "truthy JNull = False"
| "truthy JUndefined = False"
| "truthy (JNum x) = (x \<noteq> 0)"
| "truthy (JStr s) = (s \<noteq> [])"
| "truthy (JBool b) = b"
| "truthy (JObj kvs) = True"

definition js_or :: "json \<Rightarrow> json \<Rightarrow> json" where
  "js_or a b = (if truthy a then a else b)"

text \<open>Reading a property \<open>v.k\<close> of a value that is neither \<open>null\<close> nor \<open>undefined\<close>.\<close>

fun js_get :: "json \<Rightarrow> string \<Rightarrow> json" where
  "js_get (JObj kvs) k = (case map_of kvs k of Some v \<Rightarrow> v | None \<Rightarrow> JUndefined)"
| "js_get v k = JUndefined"

section \<open>Metric display: formatValue\<close>

text \<open>\<open>s.startsWith(t)\<close> and \<open>s.includes(t)\<close> on strings.\<close>

fun starts_with :: "string \<Rightarrow> string \<Rightarrow> bool" where
  "starts_with s [] = True"
| "starts_with [] (c # cs) = False"
| "starts_with (x # xs) (c # cs) = (x = c \<and> starts_with xs cs)"

fun js_includes :: "string \<Rightarrow> string \<Rightarrow> bool" where
  "js_includes [] sub = (sub = [])"
| "js_includes (x # xs) sub = (starts_with (x # xs) sub \<or> js_includes xs sub)"

text \<open>
  How the JavaScript engine writes a number is not code of the repository:
  \<open>String(x)\<close> (also used by a template literal) and \<open>x.toLocaleString()\<close> are taken as
  parameters.
\<close>

record js_numbers =
  number_toString :: "real \<Rightarrow> string"
  number_toLocaleString :: "real \<Rightarrow> string"

fun String_of :: "js_numbers \<Rightarrow> json \<Rightarrow> string" where
  "String_of rt JNull = ''null''"
| "String_of rt JUndefined = ''undefined''"
| "String_of rt (JNum x) = number_toString rt x"
| "String_of rt (JStr s) = s"
| "String_of rt (JBool b) = (if b then ''true'' else ''false'')"
| "String_of rt (JObj kvs) = ''[object Object]''"

text \<open>\<open>typeof value === "number"\<close>, and the number a value is when it is one.\<close>

fun is_number :: "json \<Rightarrow> bool" where
  "is_number (JNum x) = True"
| "is_number v = False"

fun number_of :: "json \<Rightarrow> real" where
  "number_of (JNum x) = x"
| "number_of v = 0"

text \<open>\<open>formatValue\<close> of components/analysis-module.tsx (lines 69 to 74).\<close>

definition formatValue :: "js_numbers \<Rightarrow> string \<Rightarrow> json \<Rightarrow> string" where
  "formatValue rt key value =
    (if value = JNull \<or> value = JUndefined \<or> value = JNum 0 then ''Not Found''
     else if js_includes key ''pct'' \<or> js_includes key ''rate'' \<or> js_includes key ''performance''
       then String_of rt value @ ''%''
     else if is_number value \<and> number_of value > 1000
       then ''Ksh '' @ number_toLocaleString rt (number_of value)
     else String_of rt value)"

text \<open>
  The second \<open>formatValue\<close>, local to \<open>generateIntegrityReport\<close> (the PDF generator,
  lines 10 to 15).
\<close>

definition report_formatValue :: "js_numbers \<Rightarrow> string \<Rightarrow> json \<Rightarrow> string" where
  "report_formatValue rt key value =
    (if value = JNull \<or> value = JUndefined \<or> value = JNum 0 then ''Not Found''
     else if js_includes key ''pct'' \<or> js_includes key ''rate'' \<or> js_includes key ''performance''
       then String_of rt value @ ''%''
     else if is_number value \<and> number_of value > 1000
       then ''Ksh '' @ number_toLocaleString rt (number_of value)
     else String_of rt value)"

text \<open>
  \<open>key.replaceAll("_", " ")\<close> and \<open>toUpperCase()\<close> (on the ASCII letters that metric keys
  are written in).
\<close>

definition replace_underscores :: "string \<Rightarrow> string" where
  "replace_underscores key = map (\<lambda>c. if c = CHR ''_'' then CHR '' '' else c) key"

definition upper_char :: "char \<Rightarrow> char" where
  "upper_char c =
    (case map_of (zip ''abcdefghijklmnopqrstuvwxyz'' ''ABCDEFGHIJKLMNOPQRSTUVWXYZ'') c of
       Some u \<Rightarrow> u | None \<Rightarrow> c)"

definition toUpperCase :: "string \<Rightarrow> string" where
  "toUpperCase s = map upper_char s"

text \<open>
  What the two outputs print for \<open>result.key_metrics\<close>, one (label, value text) pair per
  entry of \<open>Object.entries\<close>: the metric cards on screen (analysis-module.tsx, lines 309
  to 314) and the KEY FINANCIAL METRICS block of the report (lines 60 to 73 of the PDF
  generator; positions and fonts are not modelled).
\<close>

definition metric_cards :: "js_numbers \<Rightarrow> (string \<times> json) list \<Rightarrow> (string \<times> string) list" where
  "metric_cards rt key_metrics =
     map (\<lambda>(key, value). (replace_underscores key, formatValue rt key value)) key_metrics"

definition report_metrics :: "js_numbers \<Rightarrow> (string \<times> json) list \<Rightarrow> (string \<times> string) list" where
  "report_metrics rt metrics =
     map (\<lambda>(key, value). (toUpperCase (replace_underscores key), report_formatValue rt key value))
       metrics"

text \<open>
  A number writer for whole non-negative numbers, as the engine writes them (decimal
  digits; \<open>toLocaleString\<close> in the en-US locale groups them in threes). It stands for the
  engine where a closed example needs one.
\<close>

definition digit_char :: "nat \<Rightarrow> char" where
  "digit_char d = ''0123456789'' ! d"

fun decimal :: "nat \<Rightarrow> string" where
  "decimal n = (if n < 10 then [digit_char n] else decimal (n div 10) @ [digit_char (n mod 10)])"

fun grouped :: "nat \<Rightarrow> string" where
  "grouped n =
    (if n < 1000 then decimal n
     else grouped (n div 1000) @ '','' @
          [digit_char (n div 100 mod 10), digit_char (n div 10 mod 10), digit_char (n mod 10)])"

definition whole_numbers :: js_numbers where
  "whole_numbers = \<lparr>number_toString = (\<lambda>x. decimal (nat \<lfloor>x\<rfloor>)),
                    number_toLocaleString = (\<lambda>x. grouped (nat \<lfloor>x\<rfloor>))\<rparr>"

section \<open>The FetchCountyData route (app/api/FetchCountyData/route.ts)\<close>

text \<open>
  \<open>searchParams.get(name)\<close> returns the first value given for \<open>name\<close>, or \<open>null\<close>.
  The query string is the list of its (name, value) pairs in order.
\<close>

type_synonym query = "(string \<times> string) list"

definition searchParams_get :: "query \<Rightarrow> string \<Rightarrow> string option" where
  "searchParams_get q name = map_of q name"

text \<open>\<open>!p\<close> for \<open>p : string | null\<close>: true for \<open>null\<close> and for the empty string.\<close>

definition not_param :: "string option \<Rightarrow> bool" where
  "not_param p = (case p of None \<Rightarrow> True | Some s \<Rightarrow> s = [])"

text \<open>
  What \<open>await fetch(url)\<close> followed by \<open>await res.json()\<close> can do: \<open>fetch\<close> rejects with
  an error (its message), or resolves to a response with \<open>ok\<close>, \<open>status\<close> and a body that
  \<open>json()\<close> either rejects (message) or parses.
\<close>

datatype fetch_result =
    FetchRejected string
  | FetchResponse bool nat "string + json"

record http_response =
  status :: nat
  body :: json

definition error_body :: "string \<Rightarrow> json" where
  "error_body msg = JObj [(''error'', JStr msg)]"

text \<open>\<open>err.message || "Server error"\<close>\<close>

definition message_or_server_error :: "string \<Rightarrow> string" where
  "message_or_server_error msg = (if msg = [] then ''Server error'' else msg)"

text \<open>
  \<open>NextResponse.json(body, { status })\<close> builds a \<open>Response\<close> with a body. The
  constructor throws for a status outside 200 to 599 (RangeError) and for the statuses
  that admit no body, 204, 205 and 304 (TypeError); the text of the error is the
  engine's, and \<open>response_error\<close> stands for it.
\<close>

definition response_error :: string where
  "response_error = ''Invalid response status code''"

definition json_response :: "nat \<Rightarrow> json \<Rightarrow> string + http_response" where
  "json_response st b =
    (if st < 200 \<or> 599 < st \<or> st = 204 \<or> st = 205 \<or> st = 304 then Inl response_error
     else Inr \<lparr>status = st, body = b\<rparr>)"

text \<open>A template literal \<open>`${p}`\<close> of \<open>p : string | null\<close>.\<close>

definition template_param :: "string option \<Rightarrow> string" where
  "template_param p = (case p of None \<Rightarrow> ''null'' | Some s \<Rightarrow> s)"

text \<open>
  The handler, for the query string of the request (\<open>req.url\<close> of a request that reached
  the handler is a well-formed URL, so \<open>new URL\<close> does not throw) and for what \<open>fetch\<close>
  does with a URL. It returns its response together with the list of URLs it requested
  from the external API, in order. \<open>NextResponse.json(x)\<close> without a status is a 200;
  with the status of a response that is not ok it can throw, and the \<open>catch\<close> then
  answers 500.
\<close>

definition GET :: "query \<Rightarrow> (string \<Rightarrow> fetch_result) \<Rightarrow> http_response \<times> string list" where
  "GET q fetch =
    (let county = searchParams_get q ''county'';
         year = searchParams_get q ''year'';
         category = searchParams_get q ''category''
     in if not_param county \<or> not_param year \<or> not_param category
        then (\<lparr>status = 400, body = error_body ''Missing parameters''\<rparr>, [])
        else
          (let apiUrl = ''https://opencounty.org/opencounty/api/?county='' @ template_param county @
                        ''&catgroup=api_budget&category='' @ template_param category @
                        ''&year='' @ template_param year
           in case fetch apiUrl of
                FetchRejected msg \<Rightarrow>
                  (\<lparr>status = 500, body = error_body (message_or_server_error msg)\<rparr>, [apiUrl])
              | FetchResponse ok st b \<Rightarrow>
                  if \<not> ok
                  then (case json_response st (error_body ''Failed to fetch from OpenCounty API'') of
                          Inl msg \<Rightarrow>
                            (\<lparr>status = 500, body = error_body (message_or_server_error msg)\<rparr>,
                             [apiUrl])
                        | Inr response \<Rightarrow> (response, [apiUrl]))
                  else (case b of
                          Inl msg \<Rightarrow>
                            (\<lparr>status = 500, body = error_body (message_or_server_error msg)\<rparr>,
                             [apiUrl])
                        | Inr data \<Rightarrow>
                            (\<lparr>status = 200,
                              body = JObj [(''success'', JBool True), (''data'', data)]\<rparr>,
                             [apiUrl]))))"

section \<open>The Gemini analyze route (app/api/analyze/gemini/route.ts)\<close>

text \<open>
  The two tables the handler touches (database/schema.sql), with the columns it reads or
  writes. \<open>upload_id\<close> is a nullable foreign key; \<open>id\<close> is a SERIAL column, filled from
  a sequence on insert; \<open>created_at\<close> is a time stamp, here a number. JSONB columns hold
  the value that \<open>JSON.stringify\<close> wrote.
\<close>

record uploads_row =
  up_id :: nat
  up_filenames :: "string list"
  up_upload_status :: string

record analysis_row =
  ar_id :: nat
  ar_upload_id :: "nat option"
  ar_county :: string
  ar_year :: string
  ar_revenue :: json
  ar_expenditure :: json
  ar_intelligence :: json
  ar_summary_text :: json
  ar_raw_extracted :: json
  ar_created_at :: nat

record database =
  uploads :: "uploads_row list"
  analysis_results :: "analysis_row list"
  analysis_results_id_seq :: nat

text \<open>The request body \<open>{ pdfId, county, year }\<close>, three strings as the dashboard sends them.\<close>

record gemini_request =
  pdfId :: string
  county :: string
  year :: string

text \<open>
  What the database decides on its own during one request. A \<open>SELECT ... LIMIT 1\<close>
  without ORDER BY returns whichever matching row the database likes: \<open>plan_uploads\<close>
  and \<open>plan_analysis\<close> say which, for a list of matching rows. Any awaited call may
  reject, which ends the handler in its outer \<open>catch\<close>: \<open>rejecting\<close> names the call
  that does, with the message of its error, if one does.
\<close>

datatype db_call = Connect | SelectUpload | SelectExisting | WriteAnalysis | UpdateUpload

record db_env =
  plan_uploads :: "uploads_row list \<Rightarrow> nat"
  plan_analysis :: "analysis_row list \<Rightarrow> nat"
  rejecting :: "(db_call \<times> string) option"

definition limit1 :: "('a list \<Rightarrow> nat) \<Rightarrow> 'a list \<Rightarrow> 'a option" where
  "limit1 plan matching =
    (if matching = [] then None else Some (matching ! (plan matching mod length matching)))"

definition rejects :: "db_env \<Rightarrow> db_call \<Rightarrow> string option" where
  "rejects env call =
    (case rejecting env of
       None \<Rightarrow> None
     | Some (c, msg) \<Rightarrow> if c = call then Some msg else None)"

text \<open>
  \<open>SELECT id FROM uploads WHERE filenames @> $1 LIMIT 1\<close> with \<open>$1 = [pdfId]\<close>, and
  \<open>uploadRes.rows[0]?.id\<close>: the id of an upload whose file names contain \<open>pdfId\<close>,
  \<open>undefined\<close> (here \<open>None\<close>) when there is none.
\<close>

definition select_upload_id :: "db_env \<Rightarrow> uploads_row list \<Rightarrow> string \<Rightarrow> nat option" where
  "select_upload_id env ups pdf =
     map_option up_id (limit1 (plan_uploads env) (filter (\<lambda>u. pdf \<in> set (up_filenames u)) ups))"

text \<open>
  \<open>SELECT id FROM analysis_results WHERE upload_id = $1 AND county = $2 LIMIT 1\<close>.
  The driver sends \<open>undefined\<close> as NULL, and in SQL \<open>upload_id = NULL\<close> is true of no row.
\<close>

definition select_existing ::
  "db_env \<Rightarrow> analysis_row list \<Rightarrow> nat option \<Rightarrow> string \<Rightarrow> analysis_row option" where
  "select_existing env rows upload_id c =
    (case upload_id of
       None \<Rightarrow> None
     | Some u \<Rightarrow>
         limit1 (plan_analysis env) (filter (\<lambda>r. ar_upload_id r = Some u \<and> ar_county r = c) rows))"

text \<open>\<open>UPDATE analysis_results SET ... WHERE id = $7\<close>\<close>

definition update_analysis ::
  "nat \<Rightarrow> json \<Rightarrow> json \<Rightarrow> json \<Rightarrow> json \<Rightarrow> json \<Rightarrow> string \<Rightarrow> nat \<Rightarrow> analysis_row list \<Rightarrow> analysis_row list" where
  "update_analysis rid revenue expenditure intelligence summary_text raw_extracted y now rows =
    map (\<lambda>r. if ar_id r = rid
              then r\<lparr>ar_revenue := revenue, ar_expenditure := expenditure, ar_intelligence := intelligence,
                     ar_summary_text := summary_text, ar_raw_extracted := raw_extracted, ar_year := y,
                     ar_created_at := now\<rparr>
              else r) rows"

text \<open>\<open>INSERT INTO analysis_results (...) VALUES (...)\<close>: one new row, its id from the sequence.\<close>

definition insert_analysis ::
  "nat option \<Rightarrow> string \<Rightarrow> string \<Rightarrow> json \<Rightarrow> json \<Rightarrow> json \<Rightarrow> json \<Rightarrow> json \<Rightarrow> nat \<Rightarrow> database \<Rightarrow> database" where
  "insert_analysis upload_id c y revenue expenditure intelligence summary_text raw_extracted now db =
    db\<lparr>analysis_results := analysis_results db @
          [\<lparr>ar_id = analysis_results_id_seq db, ar_upload_id = upload_id, ar_county = c,
            ar_year = y, ar_revenue = revenue, ar_expenditure = expenditure, ar_intelligence = intelligence,
            ar_summary_text = summary_text, ar_raw_extracted = raw_extracted, ar_created_at = now\<rparr>],
        analysis_results_id_seq := Suc (analysis_results_id_seq db)\<rparr>"

text \<open>
  \<open>if (upload_id)\<close>, which is false for \<open>undefined\<close> and for 0, and
  \<open>UPDATE uploads SET upload_status = 'completed' WHERE id = $1\<close>.
\<close>

definition upload_id_truthy :: "nat option \<Rightarrow> bool" where
  "upload_id_truthy upload_id = (case upload_id of None \<Rightarrow> False | Some u \<Rightarrow> u \<noteq> 0)"

definition complete_upload :: "nat option \<Rightarrow> uploads_row list \<Rightarrow> uploads_row list" where
  "complete_upload upload_id ups =
     map (\<lambda>r. if Some (up_id r) = upload_id then r\<lparr>up_upload_status := ''completed''\<rparr> else r) ups"

definition failure_body :: "json \<Rightarrow> json" where
  "failure_body msg = JObj [(''success'', JBool False), (''error'', msg)]"

text \<open>
  The error message of a response that is not ok: \<open>errorData.detail || errorMsg\<close> when the
  body parses and is not \<open>null\<close>, \<open>"Python service error"\<close> otherwise (the inner
  \<open>catch\<close> swallows the failure).
\<close>

definition python_errorMsg :: "string + json \<Rightarrow> json" where
  "python_errorMsg b =
    (case b of
       Inl msg \<Rightarrow> JStr ''Python service error''
     | Inr errorData \<Rightarrow>
         if errorData = JNull \<or> errorData = JUndefined then JStr ''Python service error''
         else js_or (js_get errorData ''detail'') (JStr ''Python service error''))"

text \<open>
  Step 2 of the handler, "Save to database" (lines 38 to 105), in the two parts that the
  source runs as separate awaited queries, with no transaction around them. First the
  reads (lines 38 to 57): \<open>pool.connect()\<close>, the upload of the file and the check "if
  analysis already exists"; what they find is all that the writes use.
\<close>

record found =
  found_upload_id :: "nat option"
  found_existing :: "nat option"

definition check_existing :: "db_env \<Rightarrow> gemini_request \<Rightarrow> database \<Rightarrow> string + found" where
  "check_existing env req db =
    (case rejects env Connect of
       Some msg \<Rightarrow> Inl msg
     | None \<Rightarrow>
        (case rejects env SelectUpload of
           Some msg \<Rightarrow> Inl msg
         | None \<Rightarrow>
            (let upload_id = select_upload_id env (uploads db) (pdfId req)
             in case rejects env SelectExisting of
                  Some msg \<Rightarrow> Inl msg
                | None \<Rightarrow>
                    Inr \<lparr>found_upload_id = upload_id,
                         found_existing =
                           map_option ar_id
                             (select_existing env (analysis_results db) upload_id (county req))\<rparr>)))"

text \<open>
  Then the writes (lines 59 to 102), on the database as it is by then: the UPDATE of the
  row found, or the INSERT, and the UPDATE of the upload. The result is the message of
  the error thrown, if any, and the database afterwards; a statement that rejects changes
  nothing, what was written before it stays written. \<open>now\<close> is the value of
  CURRENT_TIMESTAMP.
\<close>

definition write_analysis ::
  "db_env \<Rightarrow> found \<Rightarrow> gemini_request \<Rightarrow> json \<Rightarrow> nat \<Rightarrow> database \<Rightarrow> string option \<times> database" where
  "write_analysis env f req result now db =
    (let data = js_or (js_get result ''interpreted_data'') (JObj []);
         upload_id = found_upload_id f;
         keyMetrics = js_or (js_get data ''key_metrics'') (JObj []);
         intelligence = js_or (js_get data ''intelligence'') (JObj []);
         summary_text = js_or (js_get data ''summary_text'') (JStr ''No summary provided.'');
         raw_extracted = js_or (js_get result ''raw_verified_data'') (JObj [])
     in case rejects env WriteAnalysis of
          Some msg \<Rightarrow> (Some msg, db)
        | None \<Rightarrow>
           (let db1 = (case found_existing f of
                         Some rid \<Rightarrow>
                           db\<lparr>analysis_results :=
                                update_analysis rid keyMetrics (JObj []) intelligence
                                  summary_text raw_extracted (year req) now (analysis_results db)\<rparr>
                       | None \<Rightarrow>
                           insert_analysis upload_id (county req) (year req) keyMetrics (JObj [])
                             intelligence summary_text raw_extracted now db)
            in if upload_id_truthy upload_id
               then (case rejects env UpdateUpload of
                       Some msg \<Rightarrow> (Some msg, db1)
                     | None \<Rightarrow> (None, db1\<lparr>uploads := complete_upload upload_id (uploads db1)\<rparr>))
               else (None, db1)))"

text \<open>One request on its own: the writes follow the reads on the same database.\<close>

definition save_analysis ::
  "db_env \<Rightarrow> gemini_request \<Rightarrow> json \<Rightarrow> nat \<Rightarrow> database \<Rightarrow> string option \<times> database" where
  "save_analysis env req result now db =
    (case check_existing env req db of
       Inl msg \<Rightarrow> (Some msg, db)
     | Inr f \<Rightarrow> write_analysis env f req result now db)"

text \<open>
  The handler, for a request served on its own. \<open>py\<close> is what the call to the Python
  service did; the result is the response and the database afterwards. Every error
  thrown inside the outer \<open>try\<close> is answered with a 500 that carries its message: a
  rejected call, the \<open>Response\<close> constructor refusing the status of the Python service,
  and the TypeError of reading \<open>result.interpreted_data\<close> of a \<open>null\<close> result (before
  any query is made; \<open>''TypeError''\<close> stands for the engine's text).
\<close>

definition POST ::
  "db_env \<Rightarrow> gemini_request \<Rightarrow> fetch_result \<Rightarrow> nat \<Rightarrow> database \<Rightarrow> http_response \<times> database" where
  "POST env req py now db =
    (case py of
       FetchRejected msg \<Rightarrow> (\<lparr>status = 500, body = failure_body (JStr msg)\<rparr>, db)
     | FetchResponse ok st b \<Rightarrow>
         if \<not> ok
         then (case json_response st (failure_body (python_errorMsg b)) of
                 Inl msg \<Rightarrow> (\<lparr>status = 500, body = failure_body (JStr msg)\<rparr>, db)
               | Inr response \<Rightarrow> (response, db))
         else
           (case b of
              Inl msg \<Rightarrow> (\<lparr>status = 500, body = failure_body (JStr msg)\<rparr>, db)
            | Inr result \<Rightarrow>
                if result = JNull \<or> result = JUndefined
                then (\<lparr>status = 500, body = failure_body (JStr ''TypeError'')\<rparr>, db)
                else
                  (case save_analysis env req result now db of
                     (Some msg, db') \<Rightarrow> (\<lparr>status = 500, body = failure_body (JStr msg)\<rparr>, db')
                   | (None, db') \<Rightarrow>
                       (\<lparr>status = 200,
                         body = JObj [(''success'', JBool True), (''data'', result)]\<rparr>, db'))))"

text \<open>
  The number of analysis rows for a pair (upload_id, county), and the columns of a row
  that neither branch of the handler changes.
\<close>

definition pair_key :: "analysis_row \<Rightarrow> nat \<times> nat option \<times> string" where
  "pair_key r = (ar_id r, ar_upload_id r, ar_county r)"


text \<open>
  A table after an update in place of the rows with id \<open>rid\<close>: the same rows in the
  same positions, each with its id, upload_id and county; those with id \<open>rid\<close> carry the
  new year and time stamp, every other row is as it was.
\<close>

definition updated_in_place ::
  "analysis_row list \<Rightarrow> analysis_row list \<Rightarrow> nat \<Rightarrow> string \<Rightarrow> nat \<Rightarrow> bool" where
  "updated_in_place rows rows' rid y now =
    list_all2 (\<lambda>r r'. pair_key r' = pair_key r \<and>
                 (if ar_id r = rid then ar_year r' = y \<and> ar_created_at r' = now else r' = r))
      rows rows'"

definition rows_for :: "database \<Rightarrow> nat option \<Rightarrow> string \<Rightarrow> nat" where
  "rows_for db u c =
     length (filter (\<lambda>r. ar_upload_id r = u \<and> ar_county r = c) (analysis_results db))"

text \<open>
  Example data: a database with one upload and no analysis yet, a parsed answer of the
  Python service and the response that carries it, a request for the uploaded file and
  one for a file no upload row lists.
\<close>

definition example_db :: database where
  "example_db =
     \<lparr>uploads = [\<lparr>up_id = 7, up_filenames = [''cbirr_2025.pdf''], up_upload_status = ''pending''\<rparr>],
      analysis_results = [], analysis_results_id_seq = 1\<rparr>"

definition python_result :: json where
  "python_result = JObj [(''interpreted_data'',
      JObj [(''key_metrics'', JObj [(''osr_actual'', JNum 4880829952)])])]"

definition python_ok :: fetch_result where
  "python_ok = FetchResponse True 200 (Inr python_result)"

definition request_known :: gemini_request where
  "request_known = \<lparr>pdfId = ''cbirr_2025.pdf'', county = ''Mombasa'', year = ''2025''\<rparr>"

definition request_unknown :: gemini_request where
  "request_unknown = \<lparr>pdfId = ''ghost.pdf'', county = ''Mombasa'', year = ''2025''\<rparr>"

text \<open>A database that answers every call, with the LIMIT 1 choices left open.\<close>

definition answering :: "(uploads_row list \<Rightarrow> nat) \<Rightarrow> (analysis_row list \<Rightarrow> nat) \<Rightarrow> db_env" where
  "answering pu pa = \<lparr>plan_uploads = pu, plan_analysis = pa, rejecting = None\<rparr>"


section \<open>Page Locator (specification 4.2)\<close>

text \<open>
  The Python service (\<open>app/python_service\<close>: the page locator, the extractor, the parsers,
  the analysis engine and the orchestrator) is not among the repository's files here;
  only documents about it are. What follows is written from the specification.
\<close>

text \<open>
  Modelled from the spec: the key normalisation of the Layout Index (the index builder is
  missing), 4.1: "region names are normalized (case-fold, whitespace-collapse) before
  being used as keys". Case folding is on the ASCII letters; a run of white space becomes
  one space.
\<close>

definition lower_char :: "char \<Rightarrow> char" where
  "lower_char c =
    (case map_of (zip ''ABCDEFGHIJKLMNOPQRSTUVWXYZ'' ''abcdefghijklmnopqrstuvwxyz'') c of
       Some l \<Rightarrow> l | None \<Rightarrow> c)"

definition toLowerCase :: "string \<Rightarrow> string" where
  "toLowerCase s = map lower_char s"

definition is_space :: "char \<Rightarrow> bool" where
  "is_space c = (c = CHR '' '' \<or> c = CHR 0x09 \<or> c = CHR 0x0A \<or> c = CHR 0x0D)"

fun collapse_whitespace :: "string \<Rightarrow> string" where
  "collapse_whitespace [] = []"
| "collapse_whitespace [c] = [if is_space c then CHR '' '' else c]"
| "collapse_whitespace (c # d # cs) =
     (if is_space c \<and> is_space d then collapse_whitespace (d # cs)
      else (if is_space c then CHR '' '' else c) # collapse_whitespace (d # cs))"

definition normalize_region :: "string \<Rightarrow> string" where
  "normalize_region name = collapse_whitespace (toLowerCase name)"

text \<open>
  Modelled from the spec: the data the locator works on (3 and 4.2). A LayoutIndex maps
  a normalised region name to its start page; a Document has a page count and a text per
  page (1-indexed); the constants of a report format are the section length \<open>k\<close>, the
  expansion step of the validation, the static table of approximate locations, the
  mid-document window of the brute-force scan and the default range; the result is a
  PageRange with the low-confidence flag, or \<open>RegionNotLocatedError\<close>.
\<close>

type_synonym layout_index = "string \<rightharpoonup> nat"

record document =
  total_pages :: nat
  page_text :: "nat \<Rightarrow> string"

record locator_config =
  section_length :: nat
  expansion_step :: nat
  static_table :: "string \<rightharpoonup> nat"
  brute_force_window :: "nat \<times> nat"
  default_range :: "nat list"

datatype locate_error = RegionNotLocatedError

record located =
  pages :: "nat list"
  low_confidence :: bool

text \<open>
  Modelled from the spec: the formula lookup of \<open>locate\<close> (the locator is missing), 4.2
  step 1: from the start page \<open>s\<close> and the section length \<open>k\<close>, "the candidate set
  {s, s+1, ..., s+k}", as an ascending list.
\<close>

definition formula_pages :: "nat \<Rightarrow> nat \<Rightarrow> nat list" where
  "formula_pages s k = [s..<s + k + 1]"

text \<open>
  Modelled from the spec: the validation of \<open>locate\<close>, 4.2 step 2: the text of a page of
  the document "contains the expected section header pattern Government of
  {region_name} (fuzzy/substring match, case-insensitive)"; if the start page does not,
  "expand the search window symmetrically by a small step (e.g. plus or minus 2 pages)
  and re-check each candidate start until found or the expansion budget is exhausted".
  The start page is always checked first; the order of the others (nearest first) is a
  choice of the model.
\<close>

definition has_header :: "document \<Rightarrow> string \<Rightarrow> nat \<Rightarrow> bool" where
  "has_header doc region p =
    (1 \<le> p \<and> p \<le> total_pages doc \<and>
     js_includes (toLowerCase (page_text doc p)) (toLowerCase (''Government of '' @ region)))"

definition candidate_starts :: "nat \<Rightarrow> nat \<Rightarrow> nat list" where
  "candidate_starts s step = s # concat (map (\<lambda>d. [s - d, s + d]) [1..<step + 1])"

definition validate :: "locator_config \<Rightarrow> document \<Rightarrow> string \<Rightarrow> nat \<Rightarrow> nat option" where
  "validate cfg doc region s =
     find (has_header doc region) (candidate_starts s (expansion_step cfg))"

text \<open>
  Modelled from the spec: \<open>locate(layout_index, region_name, document)\<close> (the locator is
  missing), 4.2, its five steps in priority order: formula lookup with validation, the
  static fallback table with validation, the brute-force scan of the bounded window, the
  default range with the low-confidence flag, and \<open>RegionNotLocatedError\<close> "only if even
  the default fallback range would be invalid (e.g., exceeds document length)".
\<close>

definition locate :: "locator_config \<Rightarrow> layout_index \<Rightarrow> string \<Rightarrow> document \<Rightarrow> locate_error + located" where
  "locate cfg layout_index region_name doc =
    (let k = section_length cfg;
         found = (\<lambda>s. Inr \<lparr>pages = formula_pages s k, low_confidence = False\<rparr>)
     in case Option.bind (layout_index (normalize_region region_name)) (validate cfg doc region_name) of
          Some s \<Rightarrow> found s
        | None \<Rightarrow>
           (case Option.bind (static_table cfg (normalize_region region_name))
                   (validate cfg doc region_name) of
              Some s \<Rightarrow> found s
            | None \<Rightarrow>
               (case find (has_header doc region_name)
                       [fst (brute_force_window cfg)..<snd (brute_force_window cfg) + 1] of
                  Some s \<Rightarrow> found s
                | None \<Rightarrow>
                    if default_range cfg \<noteq> [] \<and>
                       list_all (\<lambda>p. 1 \<le> p \<and> p \<le> total_pages doc) (default_range cfg)
                    then Inr \<lparr>pages = default_range cfg, low_confidence = True\<rparr>
                    else Inl RegionNotLocatedError)))"

text \<open>
  Scenario A of the specification, with the constants the repository's documents give
  for the CGBIRR report (SMART_PAGE_LOCALIZATION_FIX.md): sections of 4 pages, an
  expansion of 2 pages, a brute-force window of pages 100 to 600, the default range 300
  to 305 (the entries of the static table are not given there), a table of contents that
  puts Mombasa at page 324, and a document whose page 324 carries the header.
\<close>

definition cgbirr_config :: locator_config where
  "cgbirr_config = \<lparr>section_length = 4, expansion_step = 2,
     static_table = Map.empty,
     brute_force_window = (100, 600), default_range = [300, 301, 302, 303, 304, 305]\<rparr>"

definition cgbirr_toc :: layout_index where
  "cgbirr_toc = map_of [(''mombasa'', 324), (''kwale'', 328), (''kilifi'', 332)]"

definition cgbirr_document :: document where
  "cgbirr_document = \<lparr>total_pages = 800,
     page_text = (\<lambda>p. if p = 324 then ''3.1. County Government of Mombasa''
                       else if p = 328 then ''3.2. County Government of Kwale'' else [])\<rparr>"

section \<open>Page order and hand-off to the parser (specification 4.4 and 5)\<close>

text \<open>
  Modelled from the spec: an ExtractionResult (3), "markdown text plus a confidence score
  in [0,1] and the page number it came from".
\<close>

record extraction_result =
  er_page :: nat
  er_markdown :: string
  er_confidence :: real

text \<open>
  Modelled from the spec: the order in which the renderer takes the pages (the renderer
  is missing), 4.4: "ascending page number across the union of region range and context
  range, deduplicated".
\<close>

definition render_order :: "nat list \<Rightarrow> nat list \<Rightarrow> nat list" where
  "render_order region_range context_range = sort (remdups (region_range @ context_range))"

text \<open>
  Modelled from the spec: the hand-off of the orchestrator (missing), 5: "final
  ExtractionResults are re-sorted by page number before being handed to the Structured
  Parser regardless of completion order". The argument is the list of results in the
  order in which the per-page work completed.
\<close>

definition handoff :: "extraction_result list \<Rightarrow> extraction_result list" where
  "handoff results = sort_key er_page results"

text \<open>Seven pages that completed out of order, each with an empty result.\<close>

definition completed_pages :: "extraction_result list" where
  "completed_pages = map (\<lambda>p. \<lparr>er_page = p, er_markdown = [], er_confidence = 0\<rparr>)
     [326, 45, 324, 328, 50, 325, 327]"

section \<open>Properties of formatValue\<close>

lemma percent_not_found: "s @ ''%'' \<noteq> ''Not Found''"
proof
  assume "s @ ''%'' = ''Not Found''"
  then have "last (s @ ''%'') = last ''Not Found''" by (rule arg_cong)
  then show False by simp
qed

lemma metric_cards_entry:
  assumes "(key, value) \<in> set ms"
  shows "(replace_underscores key, formatValue rt key value) \<in> set (metric_cards rt ms)"
  using assms by (force simp: metric_cards_def)

lemma report_metrics_entry:
  assumes "(key, value) \<in> set ms"
  shows "(toUpperCase (replace_underscores key), report_formatValue rt key value)
           \<in> set (report_metrics rt ms)"
  using assms by (force simp: report_metrics_def)

text \<open>
  C1 (as amended). In both outputs, the metric cards on screen and the integrity report,
  \<open>formatValue\<close> writes "Not Found" for \<open>null\<close>, for \<open>undefined\<close> and also for the
  number 0, whatever the key, and an entry of \<open>key_metrics\<close> with such a value appears
  under its label as "Not Found" in both: a reported 0 is shown exactly as an absent
  value is. Every other number \<open>x\<close> is written, in both outputs alike, as \<open>String(x)\<close>
  followed by "%" when the key contains "pct", "rate" or "performance"; otherwise as
  "Ksh " followed by \<open>x.toLocaleString()\<close> when \<open>x > 1000\<close>; otherwise as \<open>String(x)\<close>.
  That text is never "Not Found" (provided the engine never writes a number as those
  words).
\<close>

theorem formatValue_not_found:
  "(value = JNull \<or> value = JUndefined \<or> value = JNum 0 \<longrightarrow>
      formatValue rt key value = ''Not Found'' \<and>
      report_formatValue rt key value = ''Not Found'' \<and>
      ((key, value) \<in> set ms \<longrightarrow>
         (replace_underscores key, ''Not Found'') \<in> set (metric_cards rt ms) \<and>
         (toUpperCase (replace_underscores key), ''Not Found'') \<in> set (report_metrics rt ms))) \<and>
   (x \<noteq> 0 \<longrightarrow>
      formatValue rt key (JNum x) =
        (if js_includes key ''pct'' \<or> js_includes key ''rate'' \<or> js_includes key ''performance''
         then number_toString rt x @ ''%''
         else if 1000 < x then ''Ksh '' @ number_toLocaleString rt x
         else number_toString rt x) \<and>
      report_formatValue rt key (JNum x) = formatValue rt key (JNum x) \<and>
      ((key, JNum x) \<in> set ms \<longrightarrow>
         (replace_underscores key, formatValue rt key (JNum x)) \<in> set (metric_cards rt ms) \<and>
         (toUpperCase (replace_underscores key), formatValue rt key (JNum x))
           \<in> set (report_metrics rt ms))) \<and>
   (x \<noteq> 0 \<and> number_toString rt x \<noteq> ''Not Found'' \<longrightarrow>
      formatValue rt key (JNum x) \<noteq> ''Not Found'' \<and>
      report_formatValue rt key (JNum x) \<noteq> ''Not Found'')"
proof -
  have absent: "formatValue rt key value = ''Not Found'' \<and>
      report_formatValue rt key value = ''Not Found''"
    if "value = JNull \<or> value = JUndefined \<or> value = JNum 0"
    using that by (auto simp: formatValue_def report_formatValue_def)
  have written: "formatValue rt key (JNum x) =
        (if js_includes key ''pct'' \<or> js_includes key ''rate'' \<or> js_includes key ''performance''
         then number_toString rt x @ ''%''
         else if 1000 < x then ''Ksh '' @ number_toLocaleString rt x
         else number_toString rt x)" if "x \<noteq> 0"
    using that by (simp add: formatValue_def)
  have same: "report_formatValue rt key (JNum x) = formatValue rt key (JNum x)"
    by (simp add: formatValue_def report_formatValue_def)
  have other: "formatValue rt key (JNum x) \<noteq> ''Not Found'' \<and>
      report_formatValue rt key (JNum x) \<noteq> ''Not Found''"
    if "x \<noteq> 0 \<and> number_toString rt x \<noteq> ''Not Found''"
    using that by (simp add: formatValue_def report_formatValue_def percent_not_found)
  have A: "formatValue rt key value = ''Not Found'' \<and>
      report_formatValue rt key value = ''Not Found'' \<and>
      ((key, value) \<in> set ms \<longrightarrow>
         (replace_underscores key, ''Not Found'') \<in> set (metric_cards rt ms) \<and>
         (toUpperCase (replace_underscores key), ''Not Found'') \<in> set (report_metrics rt ms))"
    if v: "value = JNull \<or> value = JUndefined \<or> value = JNum 0"
  proof -
    note n = absent [OF v]
    have "(replace_underscores key, ''Not Found'') \<in> set (metric_cards rt ms)"
      if "(key, value) \<in> set ms"
      using metric_cards_entry [OF that, of rt] n by simp
    moreover have "(toUpperCase (replace_underscores key), ''Not Found'') \<in> set (report_metrics rt ms)"
      if "(key, value) \<in> set ms"
      using report_metrics_entry [OF that, of rt] n by simp
    ultimately show ?thesis using n by blast
  qed
  have B: "formatValue rt key (JNum x) =
        (if js_includes key ''pct'' \<or> js_includes key ''rate'' \<or> js_includes key ''performance''
         then number_toString rt x @ ''%''
         else if 1000 < x then ''Ksh '' @ number_toLocaleString rt x
         else number_toString rt x) \<and>
      report_formatValue rt key (JNum x) = formatValue rt key (JNum x) \<and>
      ((key, JNum x) \<in> set ms \<longrightarrow>
         (replace_underscores key, formatValue rt key (JNum x)) \<in> set (metric_cards rt ms) \<and>
         (toUpperCase (replace_underscores key), formatValue rt key (JNum x))
           \<in> set (report_metrics rt ms))"
    if nz: "x \<noteq> 0"
  proof -
    have "(replace_underscores key, formatValue rt key (JNum x)) \<in> set (metric_cards rt ms)"
      if "(key, JNum x) \<in> set ms"
      using that by (rule metric_cards_entry)
    moreover have "(toUpperCase (replace_underscores key), formatValue rt key (JNum x))
           \<in> set (report_metrics rt ms)"
      if "(key, JNum x) \<in> set ms"
      using report_metrics_entry [OF that, of rt] by (simp only: same)
    ultimately show ?thesis using written [OF nz] same by blast
  qed
  from A B other show ?thesis by blast
qed

theorem formatValue_not_found_witness:
  "(''pending_bills'', JNum 0) \<in> set [(''pending_bills'', JNum 0), (''osr_actual'', JNull)] \<and>
   (1500::real) \<noteq> 0 \<and> number_toString whole_numbers 1500 \<noteq> ''Not Found'' \<and>
   formatValue whole_numbers ''pending_bills'' (JNum 0) = ''Not Found'' \<and>
   report_formatValue whole_numbers ''pending_bills'' (JNum 0) = ''Not Found'' \<and>
   (replace_underscores ''pending_bills'', ''Not Found'')
     \<in> set (metric_cards whole_numbers [(''pending_bills'', JNum 0), (''osr_actual'', JNull)]) \<and>
   (toUpperCase (replace_underscores ''pending_bills''), ''Not Found'')
     \<in> set (report_metrics whole_numbers [(''pending_bills'', JNum 0), (''osr_actual'', JNull)]) \<and>
   formatValue whole_numbers ''pending_bills'' (JNum 1500) = ''Ksh 1,500'' \<and>
   report_formatValue whole_numbers ''pending_bills'' (JNum 1500) = ''Ksh 1,500'' \<and>
   formatValue whole_numbers ''pending_bills'' (JNum 1500) \<noteq> ''Not Found'' \<and>
   report_formatValue whole_numbers ''pending_bills'' (JNum 1500) \<noteq> ''Not Found''"
proof -
  let ?ms = "[(''pending_bills'', JNum 0), (''osr_actual'', JNull)]"
  note t = formatValue_not_found [of "JNum 0" whole_numbers "''pending_bills''" ?ms 1500]
  have m: "(''pending_bills'', JNum 0) \<in> set ?ms"
    by simp
  have h: "(1500::real) \<noteq> 0 \<and> number_toString whole_numbers 1500 \<noteq> ''Not Found''"
    by (simp add: whole_numbers_def digit_char_def)
  have k: "(if js_includes ''pending_bills'' ''pct'' \<or> js_includes ''pending_bills'' ''rate'' \<or>
               js_includes ''pending_bills'' ''performance''
            then number_toString whole_numbers 1500 @ ''%''
            else if 1000 < (1500::real) then ''Ksh '' @ number_toLocaleString whole_numbers 1500
            else number_toString whole_numbers 1500) = ''Ksh 1,500''"
    by (simp add: whole_numbers_def digit_char_def)
  from t h have e: "formatValue whole_numbers ''pending_bills'' (JNum 1500) = ''Ksh 1,500''"
    unfolding k by blast
  from t h have r: "report_formatValue whole_numbers ''pending_bills'' (JNum 1500)
      = formatValue whole_numbers ''pending_bills'' (JNum 1500)"
    by blast
  from t have z: "formatValue whole_numbers ''pending_bills'' (JNum 0) = ''Not Found'' \<and>
      report_formatValue whole_numbers ''pending_bills'' (JNum 0) = ''Not Found'' \<and>
      (replace_underscores ''pending_bills'', ''Not Found'') \<in> set (metric_cards whole_numbers ?ms) \<and>
      (toUpperCase (replace_underscores ''pending_bills''), ''Not Found'')
        \<in> set (report_metrics whole_numbers ?ms)"
    using m by blast
  from t h have n: "formatValue whole_numbers ''pending_bills'' (JNum 1500) \<noteq> ''Not Found'' \<and>
      report_formatValue whole_numbers ''pending_bills'' (JNum 1500) \<noteq> ''Not Found''"
    by blast
  from m h z e r n show ?thesis by simp
qed

text \<open>
  The claim as stated fails: for \<open>key_metrics = {pending_bills: 0, osr_actual: null}\<close> both
  outputs print "Not Found" for the reported 0 and for the absent value alike, not the
  number 0 (which the engine writes as "0").
\<close>

theorem formatValue_zero_counterexample:
  "metric_cards whole_numbers [(''pending_bills'', JNum 0), (''osr_actual'', JNull)]
     = [(''pending bills'', ''Not Found''), (''osr actual'', ''Not Found'')] \<and>
   report_metrics whole_numbers [(''pending_bills'', JNum 0), (''osr_actual'', JNull)]
     = [(''PENDING BILLS'', ''Not Found''), (''OSR ACTUAL'', ''Not Found'')] \<and>
   number_toString whole_numbers 0 = ''0''"
  by (simp add: metric_cards_def report_metrics_def formatValue_def report_formatValue_def
      replace_underscores_def toUpperCase_def upper_char_def whole_numbers_def digit_char_def)

section \<open>Properties of the FetchCountyData route\<close>

text \<open>
  C9. A GET request in which at least one of the query parameters county, year or
  category is absent is answered with the JSON error body and HTTP status 400, and the
  handler requests nothing from the external OpenCounty API.
\<close>

theorem GET_missing_parameter:
  assumes "searchParams_get q ''county'' = None \<or> searchParams_get q ''year'' = None
           \<or> searchParams_get q ''category'' = None"
  shows "GET q fetch = (\<lparr>status = 400, body = JObj [(''error'', JStr ''Missing parameters'')]\<rparr>, [])"
  using assms by (auto simp: GET_def error_body_def not_param_def)

theorem GET_missing_parameter_witness:
  "searchParams_get [(''county'', ''Mombasa''), (''year'', ''2024'')] ''category'' = None
   \<and> GET [(''county'', ''Mombasa''), (''year'', ''2024'')] (\<lambda>u. FetchRejected ''unreachable'')
       = (\<lparr>status = 400, body = JObj [(''error'', JStr ''Missing parameters'')]\<rparr>, [])"
proof -
  have h: "searchParams_get [(''county'', ''Mombasa''), (''year'', ''2024'')] ''category'' = None"
    by (simp add: searchParams_get_def)
  from h GET_missing_parameter [of "[(''county'', ''Mombasa''), (''year'', ''2024'')]"
       "\<lambda>u. FetchRejected ''unreachable''"]
  show ?thesis by blast
qed

section \<open>Properties of the Gemini analyze route\<close>

lemma limit1_None: "limit1 plan xs = None \<longleftrightarrow> xs = []"
  by (simp add: limit1_def)

lemma limit1_Some: "limit1 plan xs = Some x \<Longrightarrow> x \<in> set xs"
  by (auto simp: limit1_def split: if_splits)

lemma rows_for_update:
  "rows_for (db\<lparr>analysis_results := update_analysis rid a b c d e y now (analysis_results db)\<rparr>) u' c'
   = rows_for db u' c'"
proof -
  have "filter (\<lambda>r. ar_upload_id r = u' \<and> ar_county r = c')
          (update_analysis rid a b c d e y now rows)
        = update_analysis rid a b c d e y now
            (filter (\<lambda>r. ar_upload_id r = u' \<and> ar_county r = c') rows)" for rows
    by (induction rows) (auto simp: update_analysis_def)
  then show ?thesis
    by (simp add: rows_for_def) (simp add: update_analysis_def)
qed

lemma update_in_place:
  "updated_in_place rows (update_analysis rid a b c d e y now rows) rid y now"
  by (induction rows) (auto simp: updated_in_place_def update_analysis_def pair_key_def)

lemma rows_for_insert:
  "rows_for (insert_analysis u c y a b i s w now db) u' c'
   = rows_for db u' c' + (if u' = u \<and> c' = c then 1 else 0)"
  by (simp add: rows_for_def insert_analysis_def)

lemma rows_for_uploads:
  "rows_for (db\<lparr>uploads := ups\<rparr>) u c = rows_for db u c"
  by (simp add: rows_for_def)

lemma select_existing_None:
  "select_existing env (analysis_results db) (Some u) c = None \<Longrightarrow> rows_for db (Some u) c = 0"
  by (simp add: select_existing_def rows_for_def limit1_None)

lemma select_existing_Some:
  assumes "select_existing env (analysis_results db) (Some u) c = Some r"
  shows "1 \<le> rows_for db (Some u) c"
proof -
  from assms have "r \<in> set (filter (\<lambda>r. ar_upload_id r = Some u \<and> ar_county r = c) (analysis_results db))"
    by (auto simp: select_existing_def dest: limit1_Some)
  then have "0 < length (filter (\<lambda>r. ar_upload_id r = Some u \<and> ar_county r = c) (analysis_results db))"
    by (metis length_pos_if_in_set)
  then show ?thesis by (simp add: rows_for_def Suc_le_eq)
qed

text \<open>A response that says \<open>success: true\<close> comes from a run in which every call answered.\<close>

lemma POST_success:
  assumes "POST env req py now db = (resp, db')"
      and "js_get (body resp) ''success'' = JBool True"
  shows "\<exists>result. save_analysis env req result now db = (None, db')"
  using assms
  by (auto simp: POST_def failure_body_def json_response_def
           split: fetch_result.splits sum.splits if_splits option.splits prod.splits)

lemma save_analysis_None:
  assumes "save_analysis env req result now db = (None, db')"
  shows "db' = (let upload_id = select_upload_id env (uploads db) (pdfId req);
                    data = js_or (js_get result ''interpreted_data'') (JObj []);
                    db1 = (case select_existing env (analysis_results db) upload_id (county req) of
                         Some existing \<Rightarrow>
                           db\<lparr>analysis_results :=
                                update_analysis (ar_id existing)
                                  (js_or (js_get data ''key_metrics'') (JObj [])) (JObj [])
                                  (js_or (js_get data ''intelligence'') (JObj []))
                                  (js_or (js_get data ''summary_text'') (JStr ''No summary provided.''))
                                  (js_or (js_get result ''raw_verified_data'') (JObj []))
                                  (year req) now (analysis_results db)\<rparr>
                       | None \<Rightarrow>
                           insert_analysis upload_id (county req) (year req)
                             (js_or (js_get data ''key_metrics'') (JObj [])) (JObj [])
                             (js_or (js_get data ''intelligence'') (JObj []))
                             (js_or (js_get data ''summary_text'') (JStr ''No summary provided.''))
                             (js_or (js_get result ''raw_verified_data'') (JObj [])) now db)
                in if upload_id_truthy upload_id
                   then db1\<lparr>uploads := complete_upload upload_id (uploads db1)\<rparr> else db1)"
  using assms
  by (auto simp: save_analysis_def check_existing_def write_analysis_def Let_def
           split: sum.splits option.splits if_splits)

lemma save_analysis_upsert:
  assumes "select_upload_id env (uploads db) (pdfId req) = Some u"
      and "save_analysis env req result now db = (None, db')"
  shows "(case select_existing env (analysis_results db) (Some u) (county req) of
            Some existing \<Rightarrow>
              updated_in_place (analysis_results db) (analysis_results db') (ar_id existing) (year req) now
          | None \<Rightarrow>
              (\<exists>new. analysis_results db' = analysis_results db @ [new] \<and>
                     ar_upload_id new = Some u \<and> ar_county new = county req))
         \<and> rows_for db' (Some u) (county req) = max 1 (rows_for db (Some u) (county req))
         \<and> (\<forall>u' c'. (u', c') \<noteq> (Some u, county req) \<longrightarrow> rows_for db' u' c' = rows_for db u' c')"
proof (cases "select_existing env (analysis_results db) (Some u) (county req)")
  case None
  have z: "rows_for db (Some u) (county req) = 0"
    using None by (rule select_existing_None)
  note d = save_analysis_None [OF assms(2)]
  have "\<exists>new. analysis_results db' = analysis_results db @ [new] \<and>
                     ar_upload_id new = Some u \<and> ar_county new = county req"
    using None assms(1) d by (simp add: Let_def insert_analysis_def)
  moreover have "rows_for db' u' c'
      = rows_for db u' c' + (if u' = Some u \<and> c' = county req then 1 else 0)" for u' c'
    using None assms(1) d by (simp add: Let_def rows_for_uploads rows_for_insert)
  ultimately show ?thesis
    using None z by simp
next
  case (Some existing)
  have p: "1 \<le> rows_for db (Some u) (county req)"
    using Some by (rule select_existing_Some)
  note d = save_analysis_None [OF assms(2)]
  have "updated_in_place (analysis_results db) (analysis_results db') (ar_id existing) (year req) now"
    using Some assms(1) d by (simp add: Let_def update_in_place)
  moreover have "rows_for db' u' c' = rows_for db u' c'" for u' c'
    using Some assms(1) d by (simp add: Let_def rows_for_uploads rows_for_update)
  ultimately show ?thesis
    using Some p by simp
qed

text \<open>
  What the route does when an uploads row lists the file, for a request served on its
  own and whichever rows the LIMIT 1 queries return: if an analysis row with that
  \<open>upload_id\<close> and county exists, the rows with the id found are updated in place and
  none is added; otherwise exactly one row is appended. The number of rows of the pair
  becomes the maximum of 1 and what it was, and that of every other pair is unchanged.
\<close>

theorem POST_resolved_upsert:
  assumes "select_upload_id env (uploads db) (pdfId req) = Some u"
      and "POST env req py now db = (resp, db')"
      and "js_get (body resp) ''success'' = JBool True"
  shows "(case select_existing env (analysis_results db) (Some u) (county req) of
            Some existing \<Rightarrow>
              updated_in_place (analysis_results db) (analysis_results db')
                (ar_id existing) (year req) now
          | None \<Rightarrow>
              (\<exists>new. analysis_results db' = analysis_results db @ [new] \<and>
                     ar_upload_id new = Some u \<and> ar_county new = county req))
         \<and> rows_for db' (Some u) (county req) = max 1 (rows_for db (Some u) (county req))
         \<and> (\<forall>u' c'. (u', c') \<noteq> (Some u, county req) \<longrightarrow> rows_for db' u' c' = rows_for db u' c')"
proof -
  from POST_success [OF assms(2,3)] obtain result
    where "save_analysis env req result now db = (None, db')"
    by blast
  with assms(1) show ?thesis by (rule save_analysis_upsert)
qed

lemma POST_resolved_upsert_example:
  "select_upload_id (answering pu pa) (uploads example_db) (pdfId request_known) = Some 7 \<and>
   js_get (body (fst (POST (answering pu pa) request_known python_ok 10 example_db))) ''success''
     = JBool True \<and>
   rows_for example_db (Some 7) ''Mombasa'' = 0 \<and>
   rows_for (snd (POST (answering pu pa) request_known python_ok 10 example_db)) (Some 7) ''Mombasa'' = 1 \<and>
   rows_for (snd (POST (answering pu pa) request_known python_ok 11
       (snd (POST (answering pu pa) request_known python_ok 10 example_db)))) (Some 7) ''Mombasa'' = 1"
proof -
  let ?env = "answering pu pa"
  let ?db1 = "snd (POST ?env request_known python_ok 10 example_db)"
  have a: "select_upload_id ?env (uploads example_db) (pdfId request_known) = Some 7"
    by (simp add: select_upload_id_def limit1_def example_db_def request_known_def)
  have b: "js_get (body (fst (POST ?env request_known python_ok 10 example_db))) ''success'' = JBool True"
    by (simp add: POST_def save_analysis_def check_existing_def write_analysis_def answering_def
        rejects_def python_ok_def python_result_def Let_def split: prod.splits)
  have z: "rows_for example_db (Some 7) ''Mombasa'' = 0"
    by (simp add: rows_for_def example_db_def)
  have c: "county request_known = ''Mombasa''"
    by (simp add: request_known_def)
  have u: "uploads ?db1 = [\<lparr>up_id = 7, up_filenames = [''cbirr_2025.pdf''], up_upload_status = ''completed''\<rparr>]"
    by (simp add: POST_def save_analysis_def check_existing_def write_analysis_def answering_def
        rejects_def limit1_def upload_id_truthy_def example_db_def python_ok_def python_result_def
        request_known_def select_upload_id_def select_existing_def insert_analysis_def
        complete_upload_def Let_def)
  have a2: "select_upload_id ?env (uploads ?db1) (pdfId request_known) = Some 7"
    unfolding u by (simp add: select_upload_id_def limit1_def request_known_def)
  have b2: "js_get (body (fst (POST ?env request_known python_ok 11 ?db1))) ''success'' = JBool True"
    by (simp add: POST_def save_analysis_def check_existing_def write_analysis_def answering_def
        rejects_def python_ok_def python_result_def Let_def split: prod.splits)
  from POST_resolved_upsert [OF a prod.collapse [symmetric] b]
  have one: "rows_for ?db1 (Some 7) ''Mombasa'' = 1"
    by (simp add: c z)
  from POST_resolved_upsert [OF a2 prod.collapse [symmetric] b2]
  have "rows_for (snd (POST ?env request_known python_ok 11 ?db1)) (Some 7) ''Mombasa'' = 1"
    by (simp add: c one)
  with a b z one show ?thesis by simp
qed

text \<open>
  C10. The route is to keep at most one analysis row per (upload_id, county): a repeat of
  a request must update the row that is there and never create a second one. It does
  not when no uploads row lists the \<open>pdfId\<close>: \<open>upload_id\<close> is then NULL, the check "if
  analysis already exists" compares with NULL and matches no row, and every successful
  request inserts one more row with \<open>upload_id\<close> NULL for the county. With one upload
  that lists another file and no analysis yet, two requests for \<open>ghost.pdf\<close> and
  Mombasa, both answered \<open>success: true\<close>, leave two such rows, whatever the LIMIT 1
  queries return.
\<close>

theorem POST_unknown_upload_duplicates:
  "js_get (body (fst (POST (answering pu pa) request_unknown python_ok 10 example_db))) ''success''
     = JBool True \<and>
   js_get (body (fst (POST (answering pu' pa') request_unknown python_ok 11
      (snd (POST (answering pu pa) request_unknown python_ok 10 example_db))))) ''success''
     = JBool True \<and>
   rows_for example_db None ''Mombasa'' = 0 \<and>
   rows_for (snd (POST (answering pu pa) request_unknown python_ok 10 example_db)) None ''Mombasa'' = 1 \<and>
   rows_for (snd (POST (answering pu' pa') request_unknown python_ok 11
      (snd (POST (answering pu pa) request_unknown python_ok 10 example_db)))) None ''Mombasa'' = 2"
  by (simp add: POST_def save_analysis_def check_existing_def write_analysis_def answering_def
        rejects_def limit1_def upload_id_truthy_def example_db_def python_ok_def python_result_def
        request_unknown_def select_upload_id_def select_existing_def insert_analysis_def
        rows_for_def js_or_def Let_def)

text \<open>
  The reads and the writes are separate queries with no transaction and no unique
  constraint, so two requests for the same uploaded file that both read before either
  writes both find no row, and both insert.
\<close>

lemma interleaved_requests_duplicate:
  "check_existing (answering pu pa) request_known example_db
     = Inr \<lparr>found_upload_id = Some 7, found_existing = None\<rparr> \<and>
   rows_for
     (snd (write_analysis (answering pu pa) \<lparr>found_upload_id = Some 7, found_existing = None\<rparr>
             request_known python_result 11
        (snd (write_analysis (answering pu pa) \<lparr>found_upload_id = Some 7, found_existing = None\<rparr>
                request_known python_result 10 example_db))))
     (Some 7) ''Mombasa'' = 2"
  by (simp add: check_existing_def write_analysis_def answering_def
        rejects_def limit1_def upload_id_truthy_def example_db_def request_known_def
        select_upload_id_def select_existing_def insert_analysis_def complete_upload_def
        rows_for_def js_or_def Let_def python_result_def)

section \<open>Properties of the Page Locator\<close>

lemma validate_at_start:
  "has_header doc region s \<Longrightarrow> validate cfg doc region s = Some s"
  by (simp add: validate_def candidate_starts_def)

lemma normalize_Mombasa: "normalize_region ''Mombasa'' = ''mombasa''"
  by (simp add: normalize_region_def toLowerCase_def lower_char_def is_space_def)

lemma header_Mombasa: "has_header cgbirr_document ''Mombasa'' 324"
  by (simp add: has_header_def cgbirr_document_def toLowerCase_def lower_char_def)

text \<open>
  C4. For a region whose Layout Index entry gives the start page \<open>s\<close>, and whose header
  is on that page, \<open>locate\<close> returns the pages of the formula lookup for the section
  length \<open>k\<close>, not marked low-confidence: exactly the set \<open>{s, ..., s + k}\<close>, ascending,
  without repetition, \<open>k + 1\<close> pages. The instance below is scenario A: Mombasa at page 324
  with sections of 4 pages gives 324, 325, 326, 327, 328.
\<close>

theorem locate_formula:
  assumes "layout_index (normalize_region region_name) = Some s"
      and "has_header doc region_name s"
  shows "locate cfg layout_index region_name doc
           = Inr \<lparr>pages = formula_pages s (section_length cfg), low_confidence = False\<rparr>
         \<and> set (formula_pages s (section_length cfg)) = {s..s + section_length cfg}
         \<and> sorted (formula_pages s (section_length cfg))
         \<and> distinct (formula_pages s (section_length cfg))
         \<and> length (formula_pages s (section_length cfg)) = section_length cfg + 1"
proof -
  have "locate cfg layout_index region_name doc
           = Inr \<lparr>pages = formula_pages s (section_length cfg), low_confidence = False\<rparr>"
    using assms by (simp add: locate_def Let_def validate_at_start)
  moreover have "set (formula_pages s (section_length cfg)) = {s..s + section_length cfg}"
    by (auto simp: formula_pages_def)
  moreover have "sorted (formula_pages s (section_length cfg))"
    unfolding formula_pages_def by (rule sorted_upt)
  moreover have "distinct (formula_pages s (section_length cfg))"
    unfolding formula_pages_def by (rule distinct_upt)
  moreover have "length (formula_pages s (section_length cfg)) = section_length cfg + 1"
    by (simp add: formula_pages_def)
  ultimately show ?thesis by blast
qed

theorem locate_formula_witness:
  "cgbirr_toc (normalize_region ''Mombasa'') = Some 324 \<and>
   has_header cgbirr_document ''Mombasa'' 324 \<and>
   locate cgbirr_config cgbirr_toc ''Mombasa'' cgbirr_document
     = Inr \<lparr>pages = [324, 325, 326, 327, 328], low_confidence = False\<rparr>"
proof -
  have a: "cgbirr_toc (normalize_region ''Mombasa'') = Some 324"
    by (simp add: normalize_Mombasa cgbirr_toc_def)
  have f: "formula_pages 324 (section_length cgbirr_config) = [324, 325, 326, 327, 328]"
    by (simp add: formula_pages_def cgbirr_config_def upt_rec)
  from locate_formula [of cgbirr_toc "''Mombasa''" 324 cgbirr_document cgbirr_config]
    a header_Mombasa f
  show ?thesis by simp
qed

section \<open>Properties of the page order\<close>

lemma handoff_sorted: "sorted (map er_page (handoff results))"
  by (simp add: handoff_def)

lemma handoff_mset: "mset (handoff results) = mset results"
  by (simp add: handoff_def)

lemma render_order_sorted: "sorted (render_order region_range context_range)"
  by (simp add: render_order_def)

lemma handoff_pages: "map er_page (handoff results) = sort (map er_page results)"
proof -
  have "mset (map er_page (handoff results)) = mset (map er_page results)"
    by (simp add: handoff_def)
  moreover have "sorted (map er_page (handoff results))" by (simp add: handoff_def)
  ultimately show ?thesis by (rule properties_for_sort [symmetric])
qed

text \<open>
  The pages that did yield a result, sorted, are the render order without the pages that
  are missing.
\<close>

lemma sorted_pages_subsequence:
  fixes ps :: "nat list"
  assumes "distinct ps" and "set ps \<subseteq> set region_range \<union> set context_range"
  shows "sort ps = filter (\<lambda>p. p \<in> set ps) (render_order region_range context_range)"
proof (rule sorted_distinct_set_unique)
  show "sorted (sort ps)" by simp
  show "distinct (sort ps)" using assms(1) by simp
  show "sorted (filter (\<lambda>p. p \<in> set ps) (render_order region_range context_range))"
    by (simp add: render_order_def sorted_filter [where f = "\<lambda>x. x", simplified])
  show "distinct (filter (\<lambda>p. p \<in> set ps) (render_order region_range context_range))"
    by (simp add: render_order_def)
  show "set (sort ps) = set (filter (\<lambda>p. p \<in> set ps) (render_order region_range context_range))"
    using assms(2) by (auto simp: render_order_def)
qed

text \<open>
  C7. Whatever the order in which the per-page work completed, the results handed to the
  Structured Parser are the same results in ascending page order. With at most one
  result per page, all of pages of the two ranges, their pages are the render order (the
  ascending, deduplicated union of the region range and the context range) without the
  pages that gave no result; with one result for each page of the render order, they are
  exactly that union, ascending and without repetition.
\<close>

theorem handoff_ascending_union:
  "sorted (map er_page (handoff results)) \<and>
   mset (handoff results) = mset results \<and>
   (distinct (map er_page results) \<and>
    set (map er_page results) \<subseteq> set region_range \<union> set context_range \<longrightarrow>
      map er_page (handoff results)
        = filter (\<lambda>p. p \<in> set (map er_page results)) (render_order region_range context_range)) \<and>
   (mset (map er_page results) = mset (render_order region_range context_range) \<longrightarrow>
      map er_page (handoff results) = render_order region_range context_range \<and>
      distinct (map er_page (handoff results)) \<and>
      set (map er_page (handoff results)) = set region_range \<union> set context_range)"
proof -
  have s: "sorted (map er_page (handoff results))" by (rule handoff_sorted)
  have m: "mset (handoff results) = mset results" by (rule handoff_mset)
  have sub: "map er_page (handoff results)
        = filter (\<lambda>p. p \<in> set (map er_page results)) (render_order region_range context_range)"
    if "distinct (map er_page results) \<and>
        set (map er_page results) \<subseteq> set region_range \<union> set context_range"
    using that by (simp only: handoff_pages sorted_pages_subsequence)
  have all: "map er_page (handoff results) = render_order region_range context_range \<and>
      distinct (map er_page (handoff results)) \<and>
      set (map er_page (handoff results)) = set region_range \<union> set context_range"
    if h: "mset (map er_page results) = mset (render_order region_range context_range)"
  proof -
    have "sort (map er_page results) = render_order region_range context_range"
      using h render_order_sorted by (rule properties_for_sort [OF sym])
    then have e: "map er_page (handoff results) = render_order region_range context_range"
      by (simp add: handoff_pages)
    show ?thesis
      unfolding e by (simp add: render_order_def)
  qed
  from s m sub all show ?thesis by blast
qed

theorem handoff_ascending_union_witness:
  "distinct (map er_page completed_pages) \<and>
   set (map er_page completed_pages) \<subseteq> set [324, 325, 326, 327, 328] \<union> set [45, 50, 324] \<and>
   mset (map er_page completed_pages) = mset (render_order [324, 325, 326, 327, 328] [45, 50, 324]) \<and>
   map er_page (handoff completed_pages) = [45, 50, 324, 325, 326, 327, 328]"
proof -
  have r: "render_order [324, 325, 326, 327, 328] [45, 50, 324] = [45, 50, 324, 325, 326, 327, 328]"
    by (simp add: render_order_def)
  have p: "map er_page completed_pages = [326, 45, 324, 328, 50, 325, 327]"
    by (simp add: completed_pages_def)
  have d: "distinct (map er_page completed_pages) \<and>
      set (map er_page completed_pages) \<subseteq> set [324, 325, 326, 327, 328] \<union> set [45, 50, 324]"
    unfolding p by simp
  have h: "mset (map er_page completed_pages)
             = mset (render_order [324, 325, 326, 327, 328] [45, 50, 324])"
    unfolding r p by (simp add: add_mset_commute)
  have e: "map er_page (handoff completed_pages)
             = render_order [324, 325, 326, 327, 328] [45, 50, 324]"
    using handoff_ascending_union [of completed_pages "[324, 325, 326, 327, 328]" "[45, 50, 324]"] h
    by blast
  from d h e [unfolded r] show ?thesis by blast
qed

end
